theory Spec2Isabelle
  imports Main
begin

text \<open>
  A shallow embedding of the QuickBooks client of \<open>quickbooks/api.py\<close> and of the
  credential lookup of \<open>quickbooks/models.py\<close>. Exceptions are values of the type
  \<open>error\<close> and a fallible result is \<open>error + 'a\<close> with \<open>Inl\<close> for the raise; the
  HTTP session is a parameter and every operation threads the list of requests sent.
\<close>

section \<open>JSON values and the Python operations applied to them\<close>

text \<open>
  The value that \<open>response.json()\<close> hands back: a Python dict, list, string, number,
  boolean or \<open>None\<close>. A dict is an association list read through \<open>map_of\<close>.
  Numbers are integers here; a float behaves the same way at every place the client
  touches a number (it is hashable, not iterable and not subscriptable).
\<close>

datatype json =
    JNull
  | JBool bool
  | JNum int
  | JStr string
  | JArr "json list"
  | JObj "(string \<times> json) list"

text \<open>
  Every exception the modelled code can raise. The first four are the package's own
  classes of \<open>api.py\<close> and \<open>models.py\<close>; the others are the Python built-ins that the
  code lets escape, and \<open>TransportError\<close> stands for any exception of the HTTP session.
\<close>

datatype error =
    AuthenticationFailure
  | ApiError json
  | DuplicateNameError json
  | FeatureNotSupportedError json
  | MissingTokenException
  | ValueError
  | KeyError string
  | TypeError
  | AttributeError
  | IndexError
  | NameError string
  | UnboundLocalError string
  | TransportError

text \<open>\<open>needle in haystack\<close> for two Python strings: a substring test.\<close>

fun startswith :: "string \<Rightarrow> string \<Rightarrow> bool" where
  "startswith s [] = True"
| "startswith [] (p # ps) = False"
| "startswith (c # cs) (p # ps) = (c = p \<and> startswith cs ps)"

fun str_contains :: "string \<Rightarrow> string \<Rightarrow> bool" where
  "str_contains [] needle = (needle = [])"
| "str_contains (c # cs) needle = (startswith (c # cs) needle \<or> str_contains cs needle)"

text \<open>
  \<open>key in obj\<close>: key membership on a dict, element membership on a list, substring on a
  string, \<open>TypeError\<close> on anything that is not iterable.
\<close>

fun py_in :: "string \<Rightarrow> json \<Rightarrow> error + bool" where
  "py_in k (JObj kvs) = Inr (map_of kvs k \<noteq> None)"
| "py_in k (JArr xs) = Inr (JStr k \<in> set xs)"
| "py_in k (JStr s) = Inr (str_contains s k)"
| "py_in k JNull = Inl TypeError"
| "py_in k (JBool b) = Inl TypeError"
| "py_in k (JNum n) = Inl TypeError"

text \<open>
  \<open>obj[key]\<close> with a string key: \<open>KeyError\<close> on a dict without the key, \<open>TypeError\<close>
  on every other kind of value.
\<close>

fun py_getitem :: "json \<Rightarrow> string \<Rightarrow> error + json" where
  "py_getitem (JObj kvs) k = (case map_of kvs k of None \<Rightarrow> Inl (KeyError k) | Some v \<Rightarrow> Inr v)"
| "py_getitem (JArr xs) k = Inl TypeError"
| "py_getitem (JStr s) k = Inl TypeError"
| "py_getitem JNull k = Inl TypeError"
| "py_getitem (JBool b) k = Inl TypeError"
| "py_getitem (JNum n) k = Inl TypeError"

text \<open>\<open>obj[0]\<close>: the first element of a list or string, \<open>IndexError\<close> when it is empty.\<close>

fun py_getitem0 :: "json \<Rightarrow> error + json" where
  "py_getitem0 (JArr []) = Inl IndexError"
| "py_getitem0 (JArr (x # xs)) = Inr x"
| "py_getitem0 (JStr []) = Inl IndexError"
| "py_getitem0 (JStr (c # cs)) = Inr (JStr [c])"
| "py_getitem0 (JObj kvs) = Inl (KeyError ''0'')"
| "py_getitem0 JNull = Inl TypeError"
| "py_getitem0 (JBool b) = Inl TypeError"
| "py_getitem0 (JNum n) = Inl TypeError"

text \<open>\<open>obj.get(key, default)\<close>: only a dict has the method.\<close>

fun py_get :: "json \<Rightarrow> string \<Rightarrow> json \<Rightarrow> error + json" where
  "py_get (JObj kvs) k d = Inr (case map_of kvs k of None \<Rightarrow> d | Some v \<Rightarrow> v)"
| "py_get (JArr xs) k d = Inl AttributeError"
| "py_get (JStr s) k d = Inl AttributeError"
| "py_get JNull k d = Inl AttributeError"
| "py_get (JBool b) k d = Inl AttributeError"
| "py_get (JNum n) k d = Inl AttributeError"

text \<open>
  The items a \<open>for\<close> loop visits: the elements of a list, the keys of a dict, the
  characters of a string; \<open>TypeError\<close> on a value that is not iterable.
\<close>

fun py_iter :: "json \<Rightarrow> error + json list" where
  "py_iter (JArr xs) = Inr xs"
| "py_iter (JObj kvs) = Inr (map (\<lambda>kv. JStr (fst kv)) kvs)"
| "py_iter (JStr s) = Inr (map (\<lambda>c. JStr [c]) s)"
| "py_iter JNull = Inl TypeError"
| "py_iter (JBool b) = Inl TypeError"
| "py_iter (JNum n) = Inl TypeError"

section \<open>The error table and the response classifier (api.py)\<close>

definition ERRORS :: "(string \<times> (json \<Rightarrow> error)) list" where
  "ERRORS = [(''5030'', FeatureNotSupportedError), (''6240'', DuplicateNameError)]"

text \<open>
  \<open>ERRORS.get(code)\<close>: a list or dict is unhashable and raises \<open>TypeError\<close>; a number,
  boolean or \<open>None\<close> is hashable and equal to none of the string keys.
\<close>

fun ERRORS_get :: "json \<Rightarrow> error + (json \<Rightarrow> error) option" where
  "ERRORS_get (JStr c) = Inr (map_of ERRORS c)"
| "ERRORS_get (JArr xs) = Inl TypeError"
| "ERRORS_get (JObj kvs) = Inl TypeError"
| "ERRORS_get JNull = Inr None"
| "ERRORS_get (JBool b) = Inr None"
| "ERRORS_get (JNum n) = Inr None"

text \<open>
  An HTTP response as the client reads it: the status code, the raw content, and what
  \<open>.json()\<close> decodes (\<open>None\<close> when the body is not JSON, where \<open>.json()\<close> raises
  \<open>ValueError\<close>).
\<close>

record response =
  status_code :: int
  content :: string
  decoded :: "json option"

definition json :: "response \<Rightarrow> error + json" where
  "json r = (case decoded r of None \<Rightarrow> Inl ValueError | Some j \<Rightarrow> Inr j)"

text \<open>
  The loop \<open>for error in errors\<close> of \<open>error_check\<close> together with the \<open>raise ApiError\<close>
  that follows it: every path through them raises, so the result is the exception.
  \<open>ERRORS[error['code']]\<close> reads the key that \<open>ERRORS.get\<close> has just found.
\<close>

fun scan_errors :: "json \<Rightarrow> json list \<Rightarrow> error" where
  "scan_errors resp_json [] = ApiError resp_json"
| "scan_errors resp_json (e # es) =
     (case py_getitem e ''code'' of
        Inl x \<Rightarrow> x
      | Inr c \<Rightarrow>
          (case ERRORS_get c of
             Inl x \<Rightarrow> x
           | Inr (Some exc) \<Rightarrow> exc resp_json
           | Inr None \<Rightarrow> scan_errors resp_json es))"

definition error_check :: "response \<Rightarrow> error + json" where
  "error_check r =
     (case (if status_code r = 400 then
              (case json r of
                 Inl x \<Rightarrow> Inl x
               | Inr resp_json \<Rightarrow>
                   (case py_in ''Fault'' resp_json of
                      Inl x \<Rightarrow> Inl x
                    | Inr has_fault \<Rightarrow>
                        if has_fault then
                          (case py_getitem resp_json ''Fault'' of
                             Inl x \<Rightarrow> Inl x
                           | Inr fault \<Rightarrow>
                               (case py_get fault ''Error'' (JArr []) of
                                  Inl x \<Rightarrow> Inl x
                                | Inr errors \<Rightarrow>
                                    (case py_iter errors of
                                       Inl x \<Rightarrow> Inl x
                                     | Inr es \<Rightarrow> Inl (scan_errors resp_json es))))
                        else Inr ()))
            else Inr ()) of
        Inl x \<Rightarrow> Inl x
      | Inr u \<Rightarrow> if status_code r = 401 then Inl AuthenticationFailure else json r)"

section \<open>The HTTP session\<close>

text \<open>
  The signed session is a black box that sends a request and hands back a response or
  raises. Its behaviour is a parameter \<open>srv\<close>: the answer to a request, given the
  requests sent before it. The state threaded through every operation is the list of
  requests sent so far, oldest first.
\<close>

datatype verb = GET | POST

record request =
  http_method :: verb
  url :: string
  data :: "string option"

type_synonym transport = "request list \<Rightarrow> request \<Rightarrow> error + response"

definition session_get ::
  "transport \<Rightarrow> string \<Rightarrow> request list \<Rightarrow> (error + response) \<times> request list" where
  "session_get srv u sent =
     (let rq = \<lparr>http_method = GET, url = u, data = None\<rparr> in (srv sent rq, sent @ [rq]))"

definition session_post ::
  "transport \<Rightarrow> string \<Rightarrow> string \<Rightarrow> request list \<Rightarrow> (error + response) \<times> request list" where
  "session_post srv u body sent =
     (let rq = \<lparr>http_method = POST, url = u, data = Some body\<rparr> in (srv sent rq, sent @ [rq]))"

section \<open>Strings: \<open>lower\<close> and \<open>urllib.quote\<close>\<close>

text \<open>
  Strings are byte strings. \<open>lower\<close> maps the 26 ASCII capitals to their small letters
  and leaves every other byte alone.
\<close>

definition lower_char :: "char \<Rightarrow> char" where
  "lower_char c =
     (case map_of (zip ''ABCDEFGHIJKLMNOPQRSTUVWXYZ'' ''abcdefghijklmnopqrstuvwxyz'') c of
        None \<Rightarrow> c
      | Some d \<Rightarrow> d)"

definition lower :: "string \<Rightarrow> string" where
  "lower s = map lower_char s"

text \<open>
  \<open>urllib.quote(s)\<close> of Python 2 with its default \<open>safe = '/'\<close>: letters, digits and
  \<open>_.-/\<close> stay, every other byte becomes \<open>%XX\<close> with two capital hexadecimal digits.
\<close>

definition always_safe :: string where
  "always_safe =
     ''ABCDEFGHIJKLMNOPQRSTUVWXYZ'' @ ''abcdefghijklmnopqrstuvwxyz'' @ ''0123456789'' @ ''_.-''"

definition hex_digit :: "nat \<Rightarrow> char" where
  "hex_digit n = ''0123456789ABCDEF'' ! (n mod 16)"

definition quoter :: "char \<Rightarrow> string" where
  "quoter c =
     (if c \<in> set (always_safe @ ''/'') then [c]
      else [CHR ''%'', hex_digit (of_char c div 16), hex_digit (of_char c mod 16)])"

definition quote :: "string \<Rightarrow> string" where
  "quote s = concat (map quoter s)"

section \<open>The credential record (models.py)\<close>

text \<open>
  A user is its primary key and the answer of \<open>is_authenticated()\<close>. A row of
  \<open>QuickbooksToken\<close> names its owner by that key; the table is the list of its rows in
  the order a query returns them.
\<close>

record auth_user =
  pk :: nat
  is_authenticated :: bool

record QuickbooksToken =
  user :: nat
  access_token :: string
  access_token_secret :: string
  realm_id :: string
  data_source :: string

definition objects_filter :: "QuickbooksToken list \<Rightarrow> auth_user \<Rightarrow> QuickbooksToken list" where
  "objects_filter objects u = filter (\<lambda>t. user t = pk u) objects"

text \<open>
  The argument of \<open>find_quickbooks_token\<close>: an instance of \<open>User\<close>, or any other
  object, of which the code reads the attribute \<open>user\<close>.
\<close>

datatype request_or_user = IsUser auth_user | HasUser auth_user

text \<open>\<open>queryset[0]\<close>: the first row, \<open>IndexError\<close> on an empty result.\<close>

fun first_row :: "QuickbooksToken list \<Rightarrow> error + QuickbooksToken" where
  "first_row [] = Inl IndexError"
| "first_row (t # ts) = Inr t"

definition find_quickbooks_token ::
  "QuickbooksToken list \<Rightarrow> request_or_user \<Rightarrow> error + QuickbooksToken option" where
  "find_quickbooks_token objects request_or_user =
     (let u = (case request_or_user of IsUser x \<Rightarrow> x | HasUser x \<Rightarrow> x) in
      if \<not> is_authenticated u then Inr None
      else
        (case first_row (objects_filter objects u) of
           Inr t \<Rightarrow> Inr (Some t)
         | Inl IndexError \<Rightarrow> Inr None
         | Inl x \<Rightarrow> Inl x))"

definition get_quickbooks_token ::
  "QuickbooksToken list \<Rightarrow> request_or_user \<Rightarrow> error + QuickbooksToken" where
  "get_quickbooks_token objects request =
     (case find_quickbooks_token objects request of
        Inl x \<Rightarrow> Inl x
      | Inr None \<Rightarrow> Inl MissingTokenException
      | Inr (Some token) \<Rightarrow> Inr token)"

section \<open>The client (api.py)\<close>

definition APPCENTER_URL_BASE :: string where
  "APPCENTER_URL_BASE = ''https://appcenter.intuit.com/api/v1/''"

definition QUICKBOOKS_DESKTOP_V3_URL_BASE :: string where
  "QUICKBOOKS_DESKTOP_V3_URL_BASE = ''https://quickbooks.api.intuit.com/v3''"

definition QUICKBOOKS_ONLINE_V3_URL_BASE :: string where
  "QUICKBOOKS_ONLINE_V3_URL_BASE = ''https://quickbooks.api.intuit.com/v3''"

definition QUICKBOOKS_ONLINE_V3_SANDBOX_URL_BASE :: string where
  "QUICKBOOKS_ONLINE_V3_SANDBOX_URL_BASE = ''https://sandbox-quickbooks.api.intuit.com/v3''"

text \<open>
  The fields \<open>__init__\<close> sets. \<open>level\<close> is a JSON value, \<open>JNull\<close> for Python's \<open>None\<close>.
  The fields copied from the token carry the prefix \<open>api_\<close>, the names without it being
  the token's own.
\<close>

record QuickbooksApi =
  token :: QuickbooksToken
  api_realm_id :: string
  api_data_source :: string
  url_base :: string
  level :: json

definition read ::
  "transport \<Rightarrow> QuickbooksApi \<Rightarrow> string \<Rightarrow> string \<Rightarrow> request list
     \<Rightarrow> (error + json) \<times> request list" where
  "read srv self object_type entity_id sent =
     (let constructed_url =
            url_base self @ ''/company/'' @ api_realm_id self @ ''/'' @ object_type @ ''/'' @ entity_id
      in case session_get srv (lower constructed_url) sent of
           (Inl x, sent') \<Rightarrow> (Inl x, sent')
         | (Inr response, sent') \<Rightarrow> (error_check response, sent'))"

definition query ::
  "transport \<Rightarrow> QuickbooksApi \<Rightarrow> string \<Rightarrow> request list \<Rightarrow> (error + json) \<times> request list" where
  "query srv self q sent =
     (let constructed_url =
            url_base self @ ''/company/'' @ api_realm_id self @ ''/query?query='' @ quote q
      in case session_get srv constructed_url sent of
           (Inl x, sent') \<Rightarrow> (Inl x, sent')
         | (Inr response, sent') \<Rightarrow> (error_check response, sent'))"

definition create ::
  "transport \<Rightarrow> QuickbooksApi \<Rightarrow> string \<Rightarrow> string \<Rightarrow> request list
     \<Rightarrow> (error + json) \<times> request list" where
  "create srv self object_type object_body sent =
     (let constructed_url = url_base self @ ''/company/'' @ api_realm_id self @ ''/'' @ object_type
      in case session_post srv (lower constructed_url) object_body sent of
           (Inl x, sent') \<Rightarrow> (Inl x, sent')
         | (Inr response, sent') \<Rightarrow> (error_check response, sent'))"

definition delete ::
  "transport \<Rightarrow> QuickbooksApi \<Rightarrow> string \<Rightarrow> string \<Rightarrow> request list
     \<Rightarrow> (error + json) \<times> request list" where
  "delete srv self object_type object_body sent =
     (let constructed_url =
            url_base self @ ''/company/'' @ api_realm_id self @ ''/'' @ object_type
              @ ''?operation=delete''
      in case session_post srv (lower constructed_url) object_body sent of
           (Inl x, sent') \<Rightarrow> (Inl x, sent')
         | (Inr response, sent') \<Rightarrow> (error_check response, sent'))"

text \<open>
  \<open>update\<close> ends with \<open>return error_check(request)\<close>. No local, global or built-in
  \<open>request\<close> exists in \<open>api.py\<close>, so evaluating the argument raises \<open>NameError\<close> before
  \<open>error_check\<close> is entered; the response of the POST is never looked at.
\<close>

definition update ::
  "transport \<Rightarrow> QuickbooksApi \<Rightarrow> string \<Rightarrow> string \<Rightarrow> request list
     \<Rightarrow> (error + json) \<times> request list" where
  "update srv self object_type object_body sent =
     (let constructed_url =
            url_base self @ ''/company/'' @ api_realm_id self @ ''/'' @ object_type
              @ ''?operation=update''
      in case session_post srv (lower constructed_url) object_body sent of
           (Inl x, sent') \<Rightarrow> (Inl x, sent')
         | (Inr response, sent') \<Rightarrow> (Inl (NameError ''request''), sent'))"

text \<open>
  The loop of \<open>_appcenter_request\<close>, \<open>k\<close> iterations to go. \<open>cont\<close> is the local
  \<open>content\<close>: \<open>None\<close> while it is unbound.
\<close>

fun appcenter_loop ::
  "transport \<Rightarrow> string \<Rightarrow> nat \<Rightarrow> string option \<Rightarrow> request list
     \<Rightarrow> (error + string option) \<times> request list" where
  "appcenter_loop srv full_url 0 cont sent = (Inr cont, sent)"
| "appcenter_loop srv full_url (Suc k) cont sent =
     (case session_get srv full_url sent of
        (Inl x, sent') \<Rightarrow> (Inl x, sent')
      | (Inr response, sent') \<Rightarrow> appcenter_loop srv full_url k (Some (content response)) sent')"

text \<open>\<open>range(retries + 1)\<close> has \<open>nat (retries + 1)\<close> elements, none when that is negative.\<close>

definition appcenter_request ::
  "transport \<Rightarrow> string \<Rightarrow> int \<Rightarrow> request list \<Rightarrow> (error + string) \<times> request list" where
  "appcenter_request srv u retries sent =
     (let full_url = APPCENTER_URL_BASE @ u in
      case appcenter_loop srv full_url (nat (retries + 1)) None sent of
        (Inl x, sent') \<Rightarrow> (Inl x, sent')
      | (Inr None, sent') \<Rightarrow> (Inl (UnboundLocalError ''content''), sent')
      | (Inr (Some c), sent') \<Rightarrow> (Inr c, sent'))"

definition app_menu ::
  "transport \<Rightarrow> int \<Rightarrow> request list \<Rightarrow> (error + string) \<times> request list" where
  "app_menu srv retries sent = appcenter_request srv ''account/appmenu'' retries sent"

definition disconnect :: "transport \<Rightarrow> request list \<Rightarrow> (error + string) \<times> request list" where
  "disconnect srv sent = appcenter_request srv ''connection/disconnect'' 3 sent"

text \<open>
  The probe of \<open>__init__\<close>: the loop over the name/value pairs. The enclosing bare
  \<open>except\<close> swallows every exception, so an exception ends the loop with the level
  assigned so far.
\<close>

fun level_loop :: "json list \<Rightarrow> json \<Rightarrow> json" where
  "level_loop [] lv = lv"
| "level_loop (pairing # ps) lv =
     (case py_getitem pairing ''Name'' of
        Inl x \<Rightarrow> lv
      | Inr n \<Rightarrow>
          if n = JStr ''OfferingSku'' then
            (case py_getitem pairing ''Value'' of
               Inl x \<Rightarrow> lv
             | Inr v \<Rightarrow> level_loop ps v)
          else level_loop ps lv)"

definition name_values_of :: "json \<Rightarrow> error + json" where
  "name_values_of result =
     (case py_getitem result ''QueryResponse'' of
        Inl x \<Rightarrow> Inl x
      | Inr a \<Rightarrow>
          (case py_getitem a ''CompanyInfo'' of
             Inl x \<Rightarrow> Inl x
           | Inr b \<Rightarrow>
               (case py_getitem0 b of
                  Inl x \<Rightarrow> Inl x
                | Inr c \<Rightarrow> py_getitem c ''NameValue'')))"

text \<open>
  The first argument of \<open>__init__\<close>: a \<open>User\<close>, a \<open>QuickbooksToken\<close>, or anything else.
\<close>

datatype owner_or_token = AUser auth_user | AToken QuickbooksToken | AOther

text \<open>
  \<open>QuickbooksApi.__init__\<close>. \<open>objects\<close> is the token table. The consumer key and secret
  of the settings and the headers of the session belong to the black-box session and
  are not modelled. \<open>.first()\<close> of an empty query set is \<open>None\<close>, whose attribute
  \<open>access_token\<close> does not exist.
\<close>

definition init ::
  "transport \<Rightarrow> QuickbooksToken list \<Rightarrow> owner_or_token \<Rightarrow> bool \<Rightarrow> bool \<Rightarrow> request list
     \<Rightarrow> (error + QuickbooksApi) \<times> request list" where
  "init srv objects owner sandbox get_level sent =
     (case (case owner of
              AUser u \<Rightarrow>
                (case objects_filter objects u of [] \<Rightarrow> Inr None | t # ts \<Rightarrow> Inr (Some t))
            | AToken t \<Rightarrow> Inr (Some t)
            | AOther \<Rightarrow> Inl ValueError) of
        Inl x \<Rightarrow> (Inl x, sent)
      | Inr None \<Rightarrow> (Inl AttributeError, sent)
      | Inr (Some tok) \<Rightarrow>
          (let online_url_base =
                 (if sandbox then QUICKBOOKS_ONLINE_V3_SANDBOX_URL_BASE
                  else QUICKBOOKS_ONLINE_V3_URL_BASE)
           in case map_of [(''QBD'', QUICKBOOKS_DESKTOP_V3_URL_BASE), (''QBO'', online_url_base)]
                     (data_source tok) of
                None \<Rightarrow> (Inl (KeyError (data_source tok)), sent)
              | Some base \<Rightarrow>
                  (let self = \<lparr>token = tok, api_realm_id = realm_id tok,
                               api_data_source = data_source tok, url_base = base,
                               level = JNull\<rparr>
                   in if get_level then
                        (case query srv self ''SELECT * FROM CompanyInfo'' sent of
                           (Inl x, sent') \<Rightarrow> (Inr self, sent')
                         | (Inr result, sent') \<Rightarrow>
                             (case name_values_of result of
                                Inl x \<Rightarrow> (Inr self, sent')
                              | Inr name_values \<Rightarrow>
                                  (case py_iter name_values of
                                     Inl x \<Rightarrow> (Inr self, sent')
                                   | Inr ps \<Rightarrow>
                                       (Inr (self\<lparr>level := level_loop ps JNull\<rparr>), sent'))))
                      else (Inr self, sent))))"

section \<open>Percent-decoding\<close>

text \<open>
  \<open>urllib.unquote\<close> of Python 2, the decoder that the receiving side applies once to the
  query parameter: \<open>%\<close> followed by two hexadecimal digits is one byte, anything else
  stands for itself. It is used below to state what \<open>quote\<close> achieves.
\<close>

definition hex_val :: "char \<Rightarrow> nat option" where
  "hex_val c =
     map_of (zip ''0123456789ABCDEFabcdef''
                 [0, 1, 2, 3, 4, 5, 6, 7, 8, 9, 10, 11, 12, 13, 14, 15, 10, 11, 12, 13, 14, 15]) c"

fun unquote :: "string \<Rightarrow> string" where
  "unquote (c # h1 # h2 # rest) =
     (if c = CHR ''%'' then
        (case (hex_val h1, hex_val h2) of
           (Some a, Some b) \<Rightarrow> char_of (16 * a + b) # unquote rest
         | _ \<Rightarrow> c # unquote (h1 # h2 # rest))
      else c # unquote (h1 # h2 # rest))"
| "unquote [c, h1] = [c, h1]"
| "unquote [c] = [c]"
| "unquote [] = []"

section \<open>Example inputs\<close>

text \<open>
  A server that answers every request with status 200 and the JSON body \<open>{}\<close>, an
  app-center server that answers with a piece of HTML, and a stored credential of user 7.
\<close>

definition ok_server :: transport where
  "ok_server sent rq = Inr \<lparr>status_code = 200, content = ''{}'', decoded = Some (JObj [])\<rparr>"

definition menu_server :: transport where
  "menu_server sent rq =
     Inr \<lparr>status_code = 200, content = ''<div>menu</div>'', decoded = None\<rparr>"

definition example_token :: QuickbooksToken where
  "example_token = \<lparr>user = 7, access_token = ''key'', access_token_secret = ''secret'',
                     realm_id = ''123'', data_source = ''QBO''\<rparr>"

definition example_api :: QuickbooksApi where
  "example_api = \<lparr>token = example_token, api_realm_id = ''123'', api_data_source = ''QBO'',
                   url_base = QUICKBOOKS_ONLINE_V3_URL_BASE, level = JNull\<rparr>"

section \<open>Shapes of the entries of an error list\<close>

text \<open>
  Three predicates on an entry of \<open>Fault.Error\<close>, used to state the properties below.
  An entry with an unknown code is an object whose \<open>code\<close> is a string other than the two
  keys of \<open>ERRORS\<close>, or a number, a boolean or \<open>null\<close> (which equal no key of it).
  An entry carries a code when it is an object with the key \<open>code\<close>, and a scalar code
  when that value is a string (as the wire shape of an error body has it), a number, a
  boolean or \<open>null\<close>: the values that can be looked up in \<open>ERRORS\<close>, a list or an
  object being unhashable.
\<close>

fun unknown_code_entry :: "json \<Rightarrow> bool" where
  "unknown_code_entry (JObj d) =
     (case map_of d ''code'' of
        None \<Rightarrow> False
      | Some JNull \<Rightarrow> True
      | Some (JBool b) \<Rightarrow> True
      | Some (JNum n) \<Rightarrow> True
      | Some (JStr c) \<Rightarrow> c \<noteq> ''5030'' \<and> c \<noteq> ''6240''
      | Some (JArr xs) \<Rightarrow> False
      | Some (JObj kvs) \<Rightarrow> False)"
| "unknown_code_entry JNull = False"
| "unknown_code_entry (JBool b) = False"
| "unknown_code_entry (JNum n) = False"
| "unknown_code_entry (JStr s) = False"
| "unknown_code_entry (JArr xs) = False"

fun carries_code :: "json \<Rightarrow> bool" where
  "carries_code (JObj d) = (map_of d ''code'' \<noteq> None)"
| "carries_code JNull = False"
| "carries_code (JBool b) = False"
| "carries_code (JNum n) = False"
| "carries_code (JStr s) = False"
| "carries_code (JArr xs) = False"

fun carries_scalar_code :: "json \<Rightarrow> bool" where
  "carries_scalar_code (JObj d) =
     (case map_of d ''code'' of
        None \<Rightarrow> False
      | Some JNull \<Rightarrow> True
      | Some (JBool b) \<Rightarrow> True
      | Some (JNum n) \<Rightarrow> True
      | Some (JStr c) \<Rightarrow> True
      | Some (JArr xs) \<Rightarrow> False
      | Some (JObj kvs) \<Rightarrow> False)"
| "carries_scalar_code JNull = False"
| "carries_scalar_code (JBool b) = False"
| "carries_scalar_code (JNum n) = False"
| "carries_scalar_code (JStr s) = False"
| "carries_scalar_code (JArr xs) = False"

section \<open>Auxiliary facts\<close>

subsection \<open>The error table and the scan of the error list\<close>

lemma map_of_ERRORS:
  "map_of ERRORS c =
     (if c = ''5030'' then Some FeatureNotSupportedError
      else if c = ''6240'' then Some DuplicateNameError
      else None)"
  by (simp add: ERRORS_def)

lemma scan_errors_step_unknown:
  "unknown_code_entry e \<Longrightarrow> scan_errors body (e # es) = scan_errors body es"
  by (cases e) (auto simp: map_of_ERRORS split: option.splits json.splits)

lemma scan_errors_all_unknown:
  "list_all unknown_code_entry es \<Longrightarrow> scan_errors body es = ApiError body"
  by (induction es) (simp_all add: scan_errors_step_unknown del: scan_errors.simps(2))

lemma scan_errors_first_known:
  assumes "list_all unknown_code_entry pre"
    and "map_of d ''code'' = Some (JStr c)"
    and "c = ''5030'' \<or> c = ''6240''"
  shows "scan_errors body (pre @ JObj d # post) =
           (if c = ''5030'' then FeatureNotSupportedError body else DuplicateNameError body)"
  using assms
proof (induction pre)
  case Nil
  then show ?case by (auto simp: map_of_ERRORS)
next
  case (Cons e pre)
  then show ?case by (simp add: scan_errors_step_unknown del: scan_errors.simps(2))
qed

lemma error_check_fault_list:
  assumes "status_code r = 400" and "decoded r = Some (JObj kvs)"
    and "map_of kvs ''Fault'' = Some (JObj f)"
    and "map_of f ''Error'' = Some (JArr es)"
  shows "error_check r = Inl (scan_errors (JObj kvs) es)"
  using assms by (simp add: error_check_def json_def)

lemma error_check_fault_no_list:
  assumes "status_code r = 400" and "decoded r = Some (JObj kvs)"
    and "map_of kvs ''Fault'' = Some (JObj f)"
    and "map_of f ''Error'' = None"
  shows "error_check r = Inl (ApiError (JObj kvs))"
  using assms by (simp add: error_check_def json_def)

lemma error_check_no_fault:
  assumes "status_code r = 400" and "decoded r = Some (JObj kvs)"
    and "map_of kvs ''Fault'' = None"
  shows "error_check r = Inr (JObj kvs)"
  using assms by (simp add: error_check_def json_def)

lemma scan_errors_step_known:
  assumes "map_of d ''code'' = Some (JStr c)" and "c = ''5030'' \<or> c = ''6240''"
  shows "scan_errors body (JObj d # es) = DuplicateNameError body
         \<or> scan_errors body (JObj d # es) = FeatureNotSupportedError body"
  using assms by (auto simp: map_of_ERRORS)

lemma scalar_code_cases:
  assumes "carries_scalar_code e"
  shows "unknown_code_entry e
         \<or> (\<exists>d c. e = JObj d \<and> map_of d ''code'' = Some (JStr c) \<and> (c = ''5030'' \<or> c = ''6240''))"
proof (cases e)
  case (JObj d)
  with assms obtain v where v: "map_of d ''code'' = Some v"
    by (auto split: option.splits)
  show ?thesis
  proof (cases v)
    case (JStr c)
    with JObj v show ?thesis by auto
  qed (use assms JObj v in auto)
qed (use assms in auto)

lemma scan_errors_scalar_codes:
  "list_all carries_scalar_code es \<Longrightarrow>
     scan_errors body es = ApiError body
     \<or> scan_errors body es = DuplicateNameError body
     \<or> scan_errors body es = FeatureNotSupportedError body"
proof (induction es)
  case Nil
  then show ?case by simp
next
  case (Cons e es)
  then have e: "carries_scalar_code e" and rest: "list_all carries_scalar_code es"
    by simp_all
  from scalar_code_cases [OF e] show ?case
  proof
    assume "unknown_code_entry e"
    then have "scan_errors body (e # es) = scan_errors body es"
      by (rule scan_errors_step_unknown)
    with Cons.IH [OF rest] show ?thesis by simp
  next
    assume "\<exists>d c. e = JObj d \<and> map_of d ''code'' = Some (JStr c) \<and> (c = ''5030'' \<or> c = ''6240'')"
    then obtain d c where "e = JObj d" and "map_of d ''code'' = Some (JStr c)"
      and "c = ''5030'' \<or> c = ''6240''"
      by blast
    with scan_errors_step_known [of d c body es] show ?thesis by blast
  qed
qed

subsection \<open>Decoding what \<open>quote\<close> produced\<close>

lemma unquote_plain: "c \<noteq> CHR ''%'' \<Longrightarrow> unquote (c # s) = c # unquote s"
proof (cases s)
  case Nil
  then show ?thesis by simp
next
  case (Cons a t)
  assume c: "c \<noteq> CHR ''%''"
  show ?thesis
  proof (cases t)
    case Nil
    with Cons c show ?thesis by simp
  next
    case (Cons b t')
    with \<open>s = a # t\<close> c show ?thesis by simp
  qed
qed

lemma hex_val_hex_digit_upto:
  "list_all (\<lambda>k. hex_val (hex_digit k) = Some k) [0..<16]"
  by code_simp

lemma hex_val_hex_digit: "k < 16 \<Longrightarrow> hex_val (hex_digit k) = Some k"
proof -
  assume "k < 16"
  then have "k \<in> set [0..<16]" by simp
  with hex_val_hex_digit_upto show ?thesis
    unfolding list_all_iff by blast
qed

lemma of_char_less_256: "(of_char c :: nat) < 256"
proof -
  have "(of_char c :: nat) mod 256 < 256" by simp
  then show ?thesis by (simp only: of_char_mod_256)
qed

lemma unquote_escape:
  "unquote (CHR ''%'' # hex_digit (of_char c div 16) # hex_digit (of_char c mod 16) # s)
     = c # unquote s"
proof -
  let ?n = "of_char c :: nat"
  have "?n < 16 * 16" using of_char_less_256 [of c] by simp
  then have hi: "?n div 16 < 16" by (rule less_mult_imp_div_less)
  have lo: "?n mod 16 < 16" by simp
  have "char_of (16 * (?n div 16) + ?n mod 16) = char_of ?n" by simp
  then have "char_of (16 * (?n div 16) + ?n mod 16) = c" by simp
  then show ?thesis
    by (simp add: hex_val_hex_digit [OF hi] hex_val_hex_digit [OF lo] del: char_of_char)
qed

lemma percent_not_safe: "CHR ''%'' \<notin> set (always_safe @ ''/'')"
  by (simp add: always_safe_def)

lemma unquote_quote: "unquote (quote q) = q"
proof (induction q)
  case Nil
  then show ?case by (simp add: quote_def)
next
  case (Cons c q)
  have step: "quote (c # q) = quoter c @ quote q" by (simp add: quote_def)
  show ?case
  proof (cases "c \<in> set (always_safe @ ''/'')")
    case True
    with percent_not_safe have "c \<noteq> CHR ''%''" by auto
    with True Cons show ?thesis by (simp add: step quoter_def unquote_plain)
  next
    case False
    with Cons show ?thesis by (simp add: step quoter_def unquote_escape del: unquote.simps)
  qed
qed

subsection \<open>The app-center loop\<close>

lemma appcenter_loop_replicate:
  assumes "\<And>i. i < k \<Longrightarrow>
             srv (sent @ replicate i \<lparr>http_method = GET, url = full_url, data = None\<rparr>)
                 \<lparr>http_method = GET, url = full_url, data = None\<rparr> = Inr (resp i)"
  shows "appcenter_loop srv full_url k cont sent =
           (Inr (if k = 0 then cont else Some (content (resp (k - 1)))),
            sent @ replicate k \<lparr>http_method = GET, url = full_url, data = None\<rparr>)"
  using assms
proof (induction k arbitrary: cont sent resp)
  case 0
  then show ?case by simp
next
  case (Suc k)
  let ?rq = "\<lparr>http_method = GET, url = full_url, data = None\<rparr>"
  have first: "srv sent ?rq = Inr (resp 0)"
    using Suc.prems [of 0] by simp
  have rest: "\<And>i. i < k \<Longrightarrow> srv ((sent @ [?rq]) @ replicate i ?rq) ?rq = Inr (resp (Suc i))"
    using Suc.prems [of "Suc _"] by simp
  have "appcenter_loop srv full_url (Suc k) cont sent =
          appcenter_loop srv full_url k (Some (content (resp 0))) (sent @ [?rq])"
    by (simp add: session_get_def first)
  also have "\<dots> = (Inr (if k = 0 then Some (content (resp 0))
                          else Some (content (resp (Suc (k - 1))))),
                    (sent @ [?rq]) @ replicate k ?rq)"
    using Suc.IH [of "sent @ [?rq]" "\<lambda>i. resp (Suc i)" "Some (content (resp 0))"] rest
    by simp
  also have "\<dots> = (Inr (if Suc k = 0 then cont else Some (content (resp (Suc k - 1)))),
                    sent @ replicate (Suc k) ?rq)"
    by (cases k) (simp_all add: replicate_app_Cons_same)
  finally show ?case .
qed

subsection \<open>The requests of \<open>read\<close> and \<open>query\<close>\<close>

lemma lower_append: "lower (a @ b) = lower a @ lower b"
  by (simp add: lower_def)

lemma lower_company: "lower ''/company/'' = ''/company/''"
  by (simp add: lower_def lower_char_def)

lemma lower_slash: "lower ''/'' = ''/''"
  by (simp add: lower_def lower_char_def)

lemma read_sent:
  "snd (read srv self object_type entity_id sent) =
     sent @ [\<lparr>http_method = GET,
              url = lower (url_base self) @ ''/company/'' @ lower (api_realm_id self) @ ''/''
                      @ lower object_type @ ''/'' @ lower entity_id,
              data = None\<rparr>]"
proof -
  have "lower (url_base self @ ''/company/'' @ api_realm_id self @ ''/'' @ object_type @ ''/''
                @ entity_id)
        = lower (url_base self) @ ''/company/'' @ lower (api_realm_id self) @ ''/''
            @ lower object_type @ ''/'' @ lower entity_id"
    by (simp only: lower_append lower_company lower_slash)
  then show ?thesis
    by (simp add: read_def session_get_def Let_def split: sum.splits)
qed

lemma init_token_QBO:
  assumes "data_source tok = ''QBO''"
  shows "\<exists>lv sent'.
           init srv objects (AToken tok) sandbox get_level sent =
             (Inr \<lparr>token = tok, api_realm_id = realm_id tok, api_data_source = ''QBO'',
                    url_base = (if sandbox then QUICKBOOKS_ONLINE_V3_SANDBOX_URL_BASE
                                else QUICKBOOKS_ONLINE_V3_URL_BASE),
                    level = lv\<rparr>, sent')"
  using assms
  by (auto simp: init_def Let_def split: prod.splits sum.splits)

lemma hex_digit_safe: "hex_digit k \<in> set (always_safe @ ''/%'')"
proof -
  have "k mod 16 < length ''0123456789ABCDEF''" by simp
  then have "''0123456789ABCDEF'' ! (k mod 16) \<in> set ''0123456789ABCDEF''"
    by (rule nth_mem)
  moreover have "set ''0123456789ABCDEF'' \<subseteq> set (always_safe @ ''/%'')"
    by (simp add: always_safe_def)
  ultimately show ?thesis unfolding hex_digit_def by blast
qed

lemma quoter_safe: "set (quoter c) \<subseteq> set (always_safe @ ''/%'')"
proof (cases "c \<in> set (always_safe @ ''/'')")
  case True
  then have "c \<in> set (always_safe @ ''/%'')" by auto
  with True show ?thesis by (simp add: quoter_def)
next
  case False
  have "CHR ''%'' \<in> set (always_safe @ ''/%'')" by simp
  with False hex_digit_safe [of "of_char c div 16"] hex_digit_safe [of "of_char c mod 16"]
  show ?thesis by (simp add: quoter_def)
qed

lemma quote_safe: "set (quote q) \<subseteq> set (always_safe @ ''/%'')"
  using quoter_safe by (induction q) (auto simp: quote_def)

lemma query_sent:
  "snd (query srv self q sent) =
     sent @ [\<lparr>http_method = GET,
              url = url_base self @ ''/company/'' @ api_realm_id self @ ''/query?query='' @ quote q,
              data = None\<rparr>]"
  by (simp add: query_def session_get_def Let_def split: sum.splits)

section \<open>Properties of the classifier\<close>

text \<open>
  C3. Every response with status 401 makes \<open>error_check\<close> raise
  \<open>AuthenticationFailure\<close>, whatever its body is (JSON or not).
\<close>

theorem error_check_401:
  "status_code r = 401 \<Longrightarrow> error_check r = Inl AuthenticationFailure"
  by (simp add: error_check_def)

theorem error_check_401_witness:
  "status_code \<lparr>status_code = 401, content = ''<html>'', decoded = None\<rparr> = 401
   \<and> error_check \<lparr>status_code = 401, content = ''<html>'', decoded = None\<rparr>
       = Inl AuthenticationFailure"
  using error_check_401 [of "\<lparr>status_code = 401, content = ''<html>'', decoded = None\<rparr>"]
  by simp

text \<open>
  C5 (amended). For a response whose status is neither 400 nor 401, \<open>error_check\<close>
  returns the decoded JSON body unchanged when the body is JSON, and raises the decoder's
  \<open>ValueError\<close> when it is not.
\<close>

theorem error_check_other_status:
  "status_code r \<noteq> 400 \<Longrightarrow> status_code r \<noteq> 401 \<Longrightarrow>
     error_check r = (case decoded r of None \<Rightarrow> Inl ValueError | Some j \<Rightarrow> Inr j)"
  by (simp add: error_check_def json_def)

theorem error_check_other_status_witness:
  "status_code \<lparr>status_code = 500, content = ''{}'', decoded = Some (JObj [])\<rparr> \<noteq> 400
   \<and> status_code \<lparr>status_code = 500, content = ''{}'', decoded = Some (JObj [])\<rparr> \<noteq> 401
   \<and> error_check \<lparr>status_code = 500, content = ''{}'', decoded = Some (JObj [])\<rparr>
       = Inr (JObj [])"
  using error_check_other_status
          [of "\<lparr>status_code = 500, content = ''{}'', decoded = Some (JObj [])\<rparr>"]
  by simp

text \<open>
  C5 as stated fails on a 500 response whose body is an HTML page: \<open>.json()\<close> raises.
\<close>

theorem error_check_other_status_counterexample:
  "status_code \<lparr>status_code = 500, content = ''<html>'', decoded = None\<rparr> \<noteq> 400
   \<and> status_code \<lparr>status_code = 500, content = ''<html>'', decoded = None\<rparr> \<noteq> 401
   \<and> error_check \<lparr>status_code = 500, content = ''<html>'', decoded = None\<rparr>
       = Inl ValueError"
  by (simp add: error_check_def json_def)

text \<open>
  C2 (amended). For a 400 response whose body is an object with a \<open>Fault\<close> object, where
  \<open>Error\<close> is absent or is a list (empty or not) of entries with unknown codes,
  \<open>error_check\<close> raises \<open>ApiError\<close> carrying the decoded body. For a 400 response whose
  body is an object without the key \<open>Fault\<close>, it raises nothing and returns the body.
\<close>

theorem error_check_400_unrecognised:
  "status_code r = 400 \<and> decoded r = Some (JObj kvs) \<longrightarrow>
     (map_of kvs ''Fault'' = Some (JObj f)
        \<and> (map_of f ''Error'' = Some (JArr es) \<or> map_of f ''Error'' = None \<and> es = [])
        \<and> list_all unknown_code_entry es
      \<longrightarrow> error_check r = Inl (ApiError (JObj kvs)))
     \<and> (map_of kvs ''Fault'' = None \<longrightarrow> error_check r = Inr (JObj kvs))"
proof (intro impI conjI)
  assume r: "status_code r = 400 \<and> decoded r = Some (JObj kvs)"
  assume f: "map_of kvs ''Fault'' = Some (JObj f)
        \<and> (map_of f ''Error'' = Some (JArr es) \<or> map_of f ''Error'' = None \<and> es = [])
        \<and> list_all unknown_code_entry es"
  then consider "map_of f ''Error'' = Some (JArr es)" | "map_of f ''Error'' = None" by auto
  then show "error_check r = Inl (ApiError (JObj kvs))"
  proof cases
    case 1
    with r f have "error_check r = Inl (scan_errors (JObj kvs) es)"
      by (simp add: error_check_fault_list)
    with f show ?thesis by (simp add: scan_errors_all_unknown)
  next
    case 2
    with r f show ?thesis by (simp add: error_check_fault_no_list)
  qed
next
  assume "status_code r = 400 \<and> decoded r = Some (JObj kvs)"
    and "map_of kvs ''Fault'' = None"
  then show "error_check r = Inr (JObj kvs)" by (simp add: error_check_no_fault)
qed


theorem error_check_400_unrecognised_witness:
  "error_check \<lparr>status_code = 400, content = [], decoded = Some (JObj [(''Fault'',
       JObj [(''Error'', JArr [JObj [(''code'', JStr ''10000''), (''Message'', JStr ''m'')]]),
             (''type'', JStr ''SystemFault'')])])\<rparr>
     = Inl (ApiError (JObj [(''Fault'',
       JObj [(''Error'', JArr [JObj [(''code'', JStr ''10000''), (''Message'', JStr ''m'')]]),
             (''type'', JStr ''SystemFault'')])]))
   \<and> error_check \<lparr>status_code = 400, content = [], decoded = Some (JObj [(''Fault'',
       JObj [(''type'', JStr ''SystemFault'')])])\<rparr>
     = Inl (ApiError (JObj [(''Fault'', JObj [(''type'', JStr ''SystemFault'')])]))
   \<and> error_check \<lparr>status_code = 400, content = [], decoded = Some (JObj [(''time'',
       JStr ''t'')])\<rparr>
     = Inr (JObj [(''time'', JStr ''t'')])"
  using error_check_400_unrecognised
      [of "\<lparr>status_code = 400, content = [], decoded = Some (JObj [(''Fault'',
           JObj [(''Error'', JArr [JObj [(''code'', JStr ''10000''), (''Message'', JStr ''m'')]]),
                 (''type'', JStr ''SystemFault'')])])\<rparr>"
          "[(''Fault'',
           JObj [(''Error'', JArr [JObj [(''code'', JStr ''10000''), (''Message'', JStr ''m'')]]),
                 (''type'', JStr ''SystemFault'')])]"
          "[(''Error'', JArr [JObj [(''code'', JStr ''10000''), (''Message'', JStr ''m'')]]),
                 (''type'', JStr ''SystemFault'')]"
          "[JObj [(''code'', JStr ''10000''), (''Message'', JStr ''m'')]]"]
    error_check_400_unrecognised
      [of "\<lparr>status_code = 400, content = [], decoded = Some (JObj [(''Fault'',
           JObj [(''type'', JStr ''SystemFault'')])])\<rparr>"
          "[(''Fault'', JObj [(''type'', JStr ''SystemFault'')])]"
          "[(''type'', JStr ''SystemFault'')]"
          "[]"]
    error_check_400_unrecognised
      [of "\<lparr>status_code = 400, content = [], decoded = Some (JObj [(''time'',
           JStr ''t'')])\<rparr>"
          "[(''time'', JStr ''t'')]"]
  by simp

text \<open>
  C2 as stated fails when the \<open>Fault\<close> envelope is missing: the 400 body \<open>{}\<close> is
  returned and no \<open>ApiError\<close> is raised.
\<close>

theorem error_check_400_no_fault_counterexample:
  "status_code \<lparr>status_code = 400, content = ''{}'', decoded = Some (JObj [])\<rparr> = 400
   \<and> error_check \<lparr>status_code = 400, content = ''{}'', decoded = Some (JObj [])\<rparr>
       = Inr (JObj [])
   \<and> error_check \<lparr>status_code = 400, content = ''{}'', decoded = Some (JObj [])\<rparr>
       \<noteq> Inl (ApiError (JObj []))"
  by (simp add: error_check_def json_def)

text \<open>
  C4 (amended). For a 400 response whose body is an object with a \<open>Fault\<close> object whose
  \<open>Error\<close> is a list, where some entry is an object with the code \<open>5030\<close> or \<open>6240\<close> and
  every entry before it is an entry with an unknown code, \<open>error_check\<close> raises the
  exception mapped from that first known code (\<open>5030\<close> to \<open>FeatureNotSupportedError\<close>,
  \<open>6240\<close> to \<open>DuplicateNameError\<close>), carrying the decoded body.
\<close>

theorem error_check_400_first_known:
  assumes "status_code r = 400" and "decoded r = Some (JObj kvs)"
    and "map_of kvs ''Fault'' = Some (JObj f)"
    and "map_of f ''Error'' = Some (JArr (pre @ JObj d # post))"
    and "list_all unknown_code_entry pre"
    and "map_of d ''code'' = Some (JStr c)"
    and "c = ''5030'' \<or> c = ''6240''"
  shows "error_check r =
           Inl (if c = ''5030'' then FeatureNotSupportedError (JObj kvs)
                else DuplicateNameError (JObj kvs))"
proof -
  have "error_check r = Inl (scan_errors (JObj kvs) (pre @ JObj d # post))"
    using assms(1-4) by (rule error_check_fault_list)
  also have "scan_errors (JObj kvs) (pre @ JObj d # post) =
      (if c = ''5030'' then FeatureNotSupportedError (JObj kvs) else DuplicateNameError (JObj kvs))"
    using assms(5-7) by (rule scan_errors_first_known)
  finally show ?thesis .
qed

theorem error_check_400_first_known_witness:
  "error_check \<lparr>status_code = 400, content = [], decoded = Some (JObj [(''Fault'',
       JObj [(''Error'', JArr [JObj [(''code'', JStr ''10000'')],
                               JObj [(''code'', JStr ''6240''), (''Message'', JStr ''m'')],
                               JObj [(''code'', JStr ''5030'')]])])])\<rparr>
     = Inl (DuplicateNameError (JObj [(''Fault'',
       JObj [(''Error'', JArr [JObj [(''code'', JStr ''10000'')],
                               JObj [(''code'', JStr ''6240''), (''Message'', JStr ''m'')],
                               JObj [(''code'', JStr ''5030'')]])])]))"
  using error_check_400_first_known
      [of "\<lparr>status_code = 400, content = [], decoded = Some (JObj [(''Fault'',
             JObj [(''Error'', JArr [JObj [(''code'', JStr ''10000'')],
                               JObj [(''code'', JStr ''6240''), (''Message'', JStr ''m'')],
                               JObj [(''code'', JStr ''5030'')]])])])\<rparr>"
          "[(''Fault'',
             JObj [(''Error'', JArr [JObj [(''code'', JStr ''10000'')],
                               JObj [(''code'', JStr ''6240''), (''Message'', JStr ''m'')],
                               JObj [(''code'', JStr ''5030'')]])])]"
          "[(''Error'', JArr [JObj [(''code'', JStr ''10000'')],
                               JObj [(''code'', JStr ''6240''), (''Message'', JStr ''m'')],
                               JObj [(''code'', JStr ''5030'')]])]"
          "[JObj [(''code'', JStr ''10000'')]]"
          "[(''code'', JStr ''6240''), (''Message'', JStr ''m'')]"
          "[JObj [(''code'', JStr ''5030'')]]"
          "''6240''"]
  by simp

text \<open>
  C4 as stated fails when an entry before the first known code has no \<open>code\<close>: the
  subscript \<open>error['code']\<close> raises \<open>KeyError\<close> before the entry \<open>6240\<close> is reached.
\<close>

theorem error_check_400_known_counterexample:
  "error_check \<lparr>status_code = 400, content = [], decoded = Some (JObj [(''Fault'',
       JObj [(''Error'', JArr [JObj [(''Message'', JStr ''m'')],
                               JObj [(''code'', JStr ''6240'')]])])])\<rparr>
     = Inl (KeyError ''code'')"
  by (simp add: error_check_def json_def)

text \<open>
  C10 (amended). Some 400 response with a \<open>Fault\<close> envelope and a non-empty \<open>Error\<close> list
  in which an entry has no \<open>code\<close> makes \<open>error_check\<close> raise \<open>KeyError\<close>, which is
  neither \<open>ApiError\<close> nor a mapped exception. For every 400 response with a \<open>Fault\<close>
  envelope whose \<open>Error\<close> is a list in which every entry carries a scalar \<open>code\<close>,
  \<open>error_check\<close> ends in \<open>ApiError\<close> or a mapped exception, with the decoded body.
\<close>

theorem error_check_missing_code:
  "(\<exists>r kvs f es d.
      status_code r = 400 \<and> decoded r = Some (JObj kvs)
      \<and> map_of kvs ''Fault'' = Some (JObj f) \<and> map_of f ''Error'' = Some (JArr es)
      \<and> es \<noteq> [] \<and> JObj d \<in> set es \<and> map_of d ''code'' = None
      \<and> error_check r = Inl (KeyError ''code''))
   \<and> (\<forall>r kvs f es.
        status_code r = 400 \<and> decoded r = Some (JObj kvs)
        \<and> map_of kvs ''Fault'' = Some (JObj f) \<and> map_of f ''Error'' = Some (JArr es)
        \<and> list_all carries_scalar_code es
        \<longrightarrow> error_check r = Inl (ApiError (JObj kvs))
            \<or> error_check r = Inl (DuplicateNameError (JObj kvs))
            \<or> error_check r = Inl (FeatureNotSupportedError (JObj kvs)))"
proof (intro conjI allI impI)
  let ?d = "[(''Message'', JStr ''m'')]"
  let ?es = "[JObj ?d]"
  let ?f = "[(''Error'', JArr ?es)]"
  let ?kvs = "[(''Fault'', JObj ?f)]"
  let ?r = "\<lparr>status_code = 400, content = [], decoded = Some (JObj ?kvs)\<rparr>"
  have "status_code ?r = 400 \<and> decoded ?r = Some (JObj ?kvs)
      \<and> map_of ?kvs ''Fault'' = Some (JObj ?f) \<and> map_of ?f ''Error'' = Some (JArr ?es)
      \<and> ?es \<noteq> [] \<and> JObj ?d \<in> set ?es \<and> map_of ?d ''code'' = None
      \<and> error_check ?r = Inl (KeyError ''code'')"
    by (simp add: error_check_def json_def)
  then show "\<exists>r kvs f es d.
      status_code r = 400 \<and> decoded r = Some (JObj kvs)
      \<and> map_of kvs ''Fault'' = Some (JObj f) \<and> map_of f ''Error'' = Some (JArr es)
      \<and> es \<noteq> [] \<and> JObj d \<in> set es \<and> map_of d ''code'' = None
      \<and> error_check r = Inl (KeyError ''code'')"
    by blast
next
  fix r :: response and kvs f es
  assume h: "status_code r = 400 \<and> decoded r = Some (JObj kvs)
        \<and> map_of kvs ''Fault'' = Some (JObj f) \<and> map_of f ''Error'' = Some (JArr es)
        \<and> list_all carries_scalar_code es"
  then have "error_check r = Inl (scan_errors (JObj kvs) es)"
    by (simp add: error_check_fault_list)
  moreover from h have "scan_errors (JObj kvs) es = ApiError (JObj kvs)
      \<or> scan_errors (JObj kvs) es = DuplicateNameError (JObj kvs)
      \<or> scan_errors (JObj kvs) es = FeatureNotSupportedError (JObj kvs)"
    by (simp add: scan_errors_scalar_codes)
  ultimately show "error_check r = Inl (ApiError (JObj kvs))
                 \<or> error_check r = Inl (DuplicateNameError (JObj kvs))
                 \<or> error_check r = Inl (FeatureNotSupportedError (JObj kvs))"
    by auto
qed

theorem error_check_missing_code_witness:
  "list_all carries_scalar_code
     [JObj [(''code'', JNum 5030)], JObj [(''code'', JStr ''6240''), (''Message'', JStr ''m'')]]
   \<and> (error_check \<lparr>status_code = 400, content = [], decoded = Some (JObj [(''Fault'',
         JObj [(''Error'', JArr [JObj [(''code'', JNum 5030)],
                JObj [(''code'', JStr ''6240''), (''Message'', JStr ''m'')]])])])\<rparr>
        = Inl (ApiError (JObj [(''Fault'',
         JObj [(''Error'', JArr [JObj [(''code'', JNum 5030)],
                JObj [(''code'', JStr ''6240''), (''Message'', JStr ''m'')]])])]))
      \<or> error_check \<lparr>status_code = 400, content = [], decoded = Some (JObj [(''Fault'',
         JObj [(''Error'', JArr [JObj [(''code'', JNum 5030)],
                JObj [(''code'', JStr ''6240''), (''Message'', JStr ''m'')]])])])\<rparr>
        = Inl (DuplicateNameError (JObj [(''Fault'',
         JObj [(''Error'', JArr [JObj [(''code'', JNum 5030)],
                JObj [(''code'', JStr ''6240''), (''Message'', JStr ''m'')]])])]))
      \<or> error_check \<lparr>status_code = 400, content = [], decoded = Some (JObj [(''Fault'',
         JObj [(''Error'', JArr [JObj [(''code'', JNum 5030)],
                JObj [(''code'', JStr ''6240''), (''Message'', JStr ''m'')]])])])\<rparr>
        = Inl (FeatureNotSupportedError (JObj [(''Fault'',
         JObj [(''Error'', JArr [JObj [(''code'', JNum 5030)],
                JObj [(''code'', JStr ''6240''), (''Message'', JStr ''m'')]])])])))"
proof -
  let ?es = "[JObj [(''code'', JNum 5030)],
              JObj [(''code'', JStr ''6240''), (''Message'', JStr ''m'')]]"
  let ?f = "[(''Error'', JArr ?es)]"
  let ?kvs = "[(''Fault'', JObj ?f)]"
  let ?r = "\<lparr>status_code = 400, content = [], decoded = Some (JObj ?kvs)\<rparr>"
  have codes: "list_all carries_scalar_code ?es"
    by simp
  have shape: "status_code ?r = 400 \<and> decoded ?r = Some (JObj ?kvs)
      \<and> map_of ?kvs ''Fault'' = Some (JObj ?f) \<and> map_of ?f ''Error'' = Some (JArr ?es)
      \<and> list_all carries_scalar_code ?es"
    by simp
  note total = error_check_missing_code [THEN conjunct2, rule_format, of ?r ?kvs ?f ?es]
  from total [OF shape] codes show ?thesis by blast
qed

text \<open>
  C10 as stated fails when an entry carries a \<open>code\<close> that is a list: every entry of
  the \<open>Error\<close> list carries a \<open>code\<close> field, yet \<open>ERRORS.get\<close> raises \<open>TypeError\<close> on
  the unhashable key, which is neither \<open>ApiError\<close> nor a mapped exception.
\<close>

theorem error_check_list_code_counterexample:
  "status_code \<lparr>status_code = 400, content = [], decoded = Some (JObj [(''Fault'',
       JObj [(''Error'', JArr [JObj [(''code'', JArr [JStr ''6240''])]])])])\<rparr> = 400
   \<and> list_all carries_code [JObj [(''code'', JArr [JStr ''6240''])]]
   \<and> error_check \<lparr>status_code = 400, content = [], decoded = Some (JObj [(''Fault'',
       JObj [(''Error'', JArr [JObj [(''code'', JArr [JStr ''6240''])]])])])\<rparr>
       = Inl TypeError"
  by (simp add: error_check_def json_def)

section \<open>Properties of the credential store\<close>

text \<open>
  C9. For an identity, passed as a user or carried by a request-like object, that is not
  authenticated or has no stored credential, \<open>find_quickbooks_token\<close> returns \<open>None\<close>
  and \<open>get_quickbooks_token\<close> raises \<open>MissingTokenException\<close>;
  \<open>find_quickbooks_token\<close> raises for no input; for an authenticated identity with a
  stored credential both return the first stored credential of that identity.
\<close>

theorem find_and_get_quickbooks_token:
  assumes "request_or_user = IsUser u \<or> request_or_user = HasUser u"
  shows "(\<forall>e. find_quickbooks_token objects request_or_user \<noteq> Inl e)
    \<and> (\<not> is_authenticated u \<or> objects_filter objects u = [] \<longrightarrow>
          find_quickbooks_token objects request_or_user = Inr None
          \<and> get_quickbooks_token objects request_or_user = Inl MissingTokenException)
    \<and> (is_authenticated u \<and> objects_filter objects u = t # ts \<longrightarrow>
          find_quickbooks_token objects request_or_user = Inr (Some t)
          \<and> get_quickbooks_token objects request_or_user = Inr t)"
proof -
  have u: "(case request_or_user of IsUser x \<Rightarrow> x | HasUser x \<Rightarrow> x) = u"
    using assms by auto
  show ?thesis
  proof (cases "is_authenticated u")
    case False
    then show ?thesis
      by (simp add: find_quickbooks_token_def get_quickbooks_token_def u)
  next
    case True
    then show ?thesis
      by (cases "objects_filter objects u")
         (simp_all add: find_quickbooks_token_def get_quickbooks_token_def u)
  qed
qed

theorem find_and_get_quickbooks_token_witness:
  "find_quickbooks_token [example_token] (HasUser \<lparr>pk = 7, is_authenticated = False\<rparr>)
     = Inr None
   \<and> get_quickbooks_token [example_token] (HasUser \<lparr>pk = 7, is_authenticated = False\<rparr>)
     = Inl MissingTokenException
   \<and> find_quickbooks_token [example_token] (IsUser \<lparr>pk = 8, is_authenticated = True\<rparr>)
     = Inr None
   \<and> get_quickbooks_token [example_token] (IsUser \<lparr>pk = 8, is_authenticated = True\<rparr>)
     = Inl MissingTokenException
   \<and> find_quickbooks_token [example_token] (IsUser \<lparr>pk = 7, is_authenticated = True\<rparr>)
     = Inr (Some example_token)
   \<and> get_quickbooks_token [example_token] (IsUser \<lparr>pk = 7, is_authenticated = True\<rparr>)
     = Inr example_token"
  using find_and_get_quickbooks_token
      [of "HasUser \<lparr>pk = 7, is_authenticated = False\<rparr>"
          "\<lparr>pk = 7, is_authenticated = False\<rparr>" "[example_token]"]
    find_and_get_quickbooks_token
      [of "IsUser \<lparr>pk = 8, is_authenticated = True\<rparr>"
          "\<lparr>pk = 8, is_authenticated = True\<rparr>" "[example_token]"]
    find_and_get_quickbooks_token
      [of "IsUser \<lparr>pk = 7, is_authenticated = True\<rparr>"
          "\<lparr>pk = 7, is_authenticated = True\<rparr>" "[example_token]" example_token "[]"]
  by (simp add: objects_filter_def example_token_def)

section \<open>Properties of the client\<close>

text \<open>
  C1. \<open>update\<close> never returns a value: after the POST it raises \<open>NameError\<close> on the
  undefined name \<open>request\<close> (or the session's own exception), so the response never
  reaches \<open>error_check\<close>. Against a server that answers 200 with the body \<open>{}\<close>,
  \<open>update\<close> raises \<open>NameError\<close> where \<open>create\<close> and \<open>delete\<close> return the body.
\<close>

theorem update_raises_NameError:
  "(\<forall>j. fst (update srv self object_type object_body sent) \<noteq> Inr j)
   \<and> fst (update ok_server example_api ''Customer'' ''{}'' []) = Inl (NameError ''request'')
   \<and> fst (create ok_server example_api ''Customer'' ''{}'' []) = Inr (JObj [])
   \<and> fst (delete ok_server example_api ''Customer'' ''{}'' []) = Inr (JObj [])"
proof (intro conjI allI)
  fix j
  show "fst (update srv self object_type object_body sent) \<noteq> Inr j"
    by (auto simp: update_def session_post_def Let_def split: sum.splits)
next
  show "fst (update ok_server example_api ''Customer'' ''{}'' []) = Inl (NameError ''request'')"
    by (simp add: update_def session_post_def ok_server_def)
next
  show "fst (create ok_server example_api ''Customer'' ''{}'' []) = Inr (JObj [])"
    by (simp add: create_def session_post_def ok_server_def error_check_def json_def)
next
  show "fst (delete ok_server example_api ''Customer'' ''{}'' []) = Inr (JObj [])"
    by (simp add: delete_def session_post_def ok_server_def error_check_def json_def)
qed

text \<open>
  C6 (amended). For \<open>retries = n\<close> with \<open>0 \<le> n\<close>, when no request raises in the session,
  \<open>app_menu\<close> issues the app-center request exactly \<open>n + 1\<close> times in sequence and
  returns the content of the last response; the earlier responses, whatever their
  status, do not show in the result.
\<close>

theorem app_menu_requests:
  assumes "0 \<le> n"
    and "\<forall>i \<le> nat n.
           srv (sent @ replicate i \<lparr>http_method = GET,
                   url = ''https://appcenter.intuit.com/api/v1/account/appmenu'', data = None\<rparr>)
               \<lparr>http_method = GET,
                  url = ''https://appcenter.intuit.com/api/v1/account/appmenu'', data = None\<rparr>
           = Inr (resp i)"
  shows "app_menu srv n sent =
           (Inr (content (resp (nat n))),
            sent @ replicate (nat n + 1) \<lparr>http_method = GET,
                   url = ''https://appcenter.intuit.com/api/v1/account/appmenu'', data = None\<rparr>)"
proof -
  let ?u = "''https://appcenter.intuit.com/api/v1/account/appmenu''"
  let ?rq = "\<lparr>http_method = GET, url = ?u, data = None\<rparr>"
  have u: "APPCENTER_URL_BASE @ ''account/appmenu'' = ?u"
    by (simp add: APPCENTER_URL_BASE_def)
  have k: "nat (n + 1) = Suc (nat n)"
    using assms(1) by simp
  have "\<And>i. i < Suc (nat n) \<Longrightarrow> srv (sent @ replicate i ?rq) ?rq = Inr (resp i)"
    using assms(2) by simp
  then have "appcenter_loop srv ?u (Suc (nat n)) None sent =
          (Inr (if Suc (nat n) = 0 then None else Some (content (resp (Suc (nat n) - 1)))),
           sent @ replicate (Suc (nat n)) ?rq)"
    by (rule appcenter_loop_replicate)
  then show ?thesis
    by (simp add: app_menu_def appcenter_request_def u k del: appcenter_loop.simps replicate.simps)
qed

theorem app_menu_requests_witness:
  "app_menu menu_server 3 [] =
     (Inr ''<div>menu</div>'',
      replicate 4 \<lparr>http_method = GET,
                   url = ''https://appcenter.intuit.com/api/v1/account/appmenu'', data = None\<rparr>)"
  using app_menu_requests [of 3 menu_server "[]"
      "\<lambda>i. \<lparr>status_code = 200, content = ''<div>menu</div>'', decoded = None\<rparr>"]
  by (simp add: menu_server_def)

text \<open>C6 as stated fails at \<open>retries = 3\<close>: four requests are issued, not three.\<close>

theorem app_menu_requests_counterexample:
  "length (snd (app_menu menu_server 3 [])) = 4 \<and> length (snd (app_menu menu_server 3 [])) \<noteq> 3"
  by code_simp

text \<open>
  C7 (amended). For a client constructed from a credential whose \<open>data_source\<close> is
  \<open>QBO\<close> (the value the code uses for the online family) and whose realm is \<open>123\<close>,
  with \<open>sandbox = False\<close>, construction succeeds and \<open>read("Customer", "42")\<close> issues
  a GET to exactly \<open>https://quickbooks.api.intuit.com/v3/company/123/customer/42\<close>. In
  general \<open>read\<close> issues one GET to \<open>{base}/company/{realm}/{type}/{id}\<close> with every
  segment lower-cased.
\<close>

theorem read_url:
  "(data_source tok = ''QBO'' \<and> realm_id tok = ''123'' \<longrightarrow>
      (\<exists>self sent'.
          init srv objects (AToken tok) False get_level sent = (Inr self, sent')
          \<and> snd (read srv self ''Customer'' ''42'' sent') =
              sent' @ [\<lparr>http_method = GET,
                         url = ''https://quickbooks.api.intuit.com/v3/company/123/customer/42'',
                         data = None\<rparr>]))
   \<and> snd (read srv' self' object_type entity_id sent0) =
       sent0 @ [\<lparr>http_method = GET,
                  url = lower (url_base self') @ ''/company/'' @ lower (api_realm_id self') @ ''/''
                          @ lower object_type @ ''/'' @ lower entity_id,
                  data = None\<rparr>]"
proof (intro conjI impI)
  assume tok: "data_source tok = ''QBO'' \<and> realm_id tok = ''123''"
  then obtain lv sent' where i:
    "init srv objects (AToken tok) False get_level sent =
       (Inr \<lparr>token = tok, api_realm_id = ''123'', api_data_source = ''QBO'',
              url_base = QUICKBOOKS_ONLINE_V3_URL_BASE, level = lv\<rparr>, sent')"
    using init_token_QBO [of tok srv objects False get_level sent] by auto
  let ?self = "\<lparr>token = tok, api_realm_id = ''123'', api_data_source = ''QBO'',
              url_base = QUICKBOOKS_ONLINE_V3_URL_BASE, level = lv\<rparr>"
  have "snd (read srv ?self ''Customer'' ''42'' sent') =
          sent' @ [\<lparr>http_method = GET,
                     url = ''https://quickbooks.api.intuit.com/v3/company/123/customer/42'',
                     data = None\<rparr>]"
    by (simp add: read_sent QUICKBOOKS_ONLINE_V3_URL_BASE_def lower_def lower_char_def)
  with i show "\<exists>self sent'.
          init srv objects (AToken tok) False get_level sent = (Inr self, sent')
          \<and> snd (read srv self ''Customer'' ''42'' sent') =
              sent' @ [\<lparr>http_method = GET,
                         url = ''https://quickbooks.api.intuit.com/v3/company/123/customer/42'',
                         data = None\<rparr>]"
    by blast
next
  show "snd (read srv' self' object_type entity_id sent0) =
       sent0 @ [\<lparr>http_method = GET,
                  url = lower (url_base self') @ ''/company/'' @ lower (api_realm_id self') @ ''/''
                          @ lower object_type @ ''/'' @ lower entity_id,
                  data = None\<rparr>]"
    by (rule read_sent)
qed

theorem read_url_witness:
  "data_source example_token = ''QBO'' \<and> realm_id example_token = ''123''
   \<and> (\<exists>self sent'.
          init ok_server [] (AToken example_token) False True [] = (Inr self, sent')
          \<and> snd (read ok_server self ''Customer'' ''42'' sent') =
              sent' @ [\<lparr>http_method = GET,
                         url = ''https://quickbooks.api.intuit.com/v3/company/123/customer/42'',
                         data = None\<rparr>])"
proof -
  have h: "data_source example_token = ''QBO'' \<and> realm_id example_token = ''123''"
    by (simp add: example_token_def)
  note r = read_url [of example_token ok_server "[]" True "[]", THEN conjunct1, THEN mp, OF h]
  from h r show ?thesis by blast
qed

text \<open>
  C7 as stated fails: with the \<open>data_source\<close> value \<open>online\<close> the lookup of the base URL
  raises \<open>KeyError\<close> and no client is constructed.
\<close>

theorem read_url_counterexample:
  "fst (init ok_server [] (AToken \<lparr>user = 7, access_token = ''key'',
          access_token_secret = ''secret'', realm_id = ''123'', data_source = ''online''\<rparr>)
        False True [])
     = Inl (KeyError ''online'')"
  by (simp add: init_def)

text \<open>
  C8. \<open>query(q)\<close> issues one GET whose URL is \<open>{base}/company/{realm}/query?query=\<close>
  followed by \<open>quote q\<close>, with no part lower-cased. \<open>quote q\<close> is \<open>q\<close> encoded once:
  decoding it once gives \<open>q\<close> back, it holds only unreserved characters, \<open>/\<close> and
  \<open>%\<close>, and encoding it a second time would change it.
\<close>

theorem query_url:
  "snd (query srv self q sent) =
     sent @ [\<lparr>http_method = GET,
              url = url_base self @ ''/company/'' @ api_realm_id self @ ''/query?query='' @ quote q,
              data = None\<rparr>]
   \<and> unquote (quote q) = q
   \<and> set (quote q) \<subseteq> set (always_safe @ ''/%'')
   \<and> quote ''SELECT * FROM CompanyInfo'' = ''SELECT%20%2A%20FROM%20CompanyInfo''
   \<and> quote (quote ''SELECT * FROM CompanyInfo'') \<noteq> quote ''SELECT * FROM CompanyInfo''"
proof (intro conjI)
  show "snd (query srv self q sent) =
     sent @ [\<lparr>http_method = GET,
              url = url_base self @ ''/company/'' @ api_realm_id self @ ''/query?query='' @ quote q,
              data = None\<rparr>]"
    by (rule query_sent)
  show "unquote (quote q) = q"
    by (rule unquote_quote)
  show "set (quote q) \<subseteq> set (always_safe @ ''/%'')"
    by (rule quote_safe)
  show "quote ''SELECT * FROM CompanyInfo'' = ''SELECT%20%2A%20FROM%20CompanyInfo''"
    by code_simp
  show "quote (quote ''SELECT * FROM CompanyInfo'') \<noteq> quote ''SELECT * FROM CompanyInfo''"
    by code_simp
qed

end
